theory Spec2Isabelle
  imports Main
begin

section \<open>The retry helper of src/App.jsx\<close>

text \<open>
  The repository holds one piece of logic besides markup: the helper
  \<^verbatim>\<open>fetchWithBackoff\<close>, written twice, once inside the component
  \<^verbatim>\<open>DocBotPage\<close> (lines 419--438) and once inside \<^verbatim>\<open>PredictionPage\<close>
  (lines 705--724):
  \<^verbatim>\<open>
  async (url, options, retries = 3, delay = 1000) => {
    for (let i = 0; i < retries; i++) {
      try {
        const response = await fetch(url, options);
        if (response.ok) {
          return response;
        } else if (response.status === 429 && i < retries - 1) {
          await new Promise(resolve => setTimeout(resolve, delay));
          delay *= 2; // Exponential backoff
          continue;
        } else {
          throw new Error(`API returned status ${response.status}`);
        }
      } catch (error) {
        if (i === retries - 1) throw error;
        await new Promise(resolve => setTimeout(resolve, delay));
        delay *= 2;
      }
    }
  }
  \<close>
  Both copies are embedded below, each from its own lines.
\<close>

subsection \<open>Values of the platform\<close>

text \<open>
  A response as the helper reads it: the numeric status and the content the caller
  decodes afterwards. \<^verbatim>\<open>response.ok\<close> is the platform's getter: true exactly
  for a status from 200 to 299.
\<close>

record response =
  status :: nat
  content :: string

definition ok :: "response \<Rightarrow> bool" where
  "ok response = (200 \<le> status response \<and> status response \<le> 299)"

text \<open>
  The second argument of \<^verbatim>\<open>fetch\<close>, as both call sites build it. The field
  \<open>http_method\<close> is the source's \<^verbatim>\<open>method\<close>, a reserved word here.
\<close>

record options =
  http_method :: string
  headers :: "(string \<times> string) list"
  body :: string

text \<open>
  A thrown value, by constructor and message: \<open>Error\<close> is what
  \<^verbatim>\<open>new Error(message)\<close> builds, the others are what \<^verbatim>\<open>fetch\<close> rejects with.
\<close>

datatype thrown = Error string | TypeError string | AbortError string

text \<open>How the promise of one \<^verbatim>\<open>fetch\<close> call settles.\<close>

datatype settled = Resolved response | Rejected thrown

text \<open>
  The transport is the world the helper runs in: \<open>tr k\<close> is how the \<open>k\<close>-th call of
  \<^verbatim>\<open>fetch\<close> from now on settles (counting from 0). Each call consumes one entry,
  so the rest of the run sees \<open>\<lambda>k. tr (Suc k)\<close>. The url and the options never change
  during a run, so a transport that depends on them is one transport per pair.
  Every call is taken to settle: a promise that stays pending for ever has no
  entry here.
\<close>

type_synonym transport = "nat \<Rightarrow> settled"

text \<open>
  What a run does that can be observed from outside: the calls of \<^verbatim>\<open>fetch\<close>
  and the timers it awaits, in order. \<open>Wait d\<close> is
  \<^verbatim>\<open>await new Promise(resolve => setTimeout(resolve, d))\<close>.
\<close>

datatype event = Fetch string options | Wait int

text \<open>
  How the async function settles: it returns a response, throws, or falls off the
  end of its body, which in JavaScript returns \<^verbatim>\<open>undefined\<close>.
\<close>

datatype completion = Returned response | Thrown thrown | Undefined

text \<open>
  The variables of one invocation. \<^verbatim>\<open>retries\<close> and \<^verbatim>\<open>delay\<close> are the
  parameters, \<^verbatim>\<open>i\<close> is the loop counter. JavaScript numbers are modelled as
  mathematical integers: doubling is exact on a double until it overflows.
\<close>

record locals =
  retries :: int
  delay :: int
  i :: int

text \<open>A finished run: how it settled, its variables at that moment, what it did.\<close>

record run =
  outcome :: completion
  vars :: locals
  trace :: "event list"

definition settle :: "completion \<Rightarrow> locals \<Rightarrow> run" where
  "settle c s = \<lparr>outcome = c, vars = s, trace = []\<rparr>"

definition after :: "event \<Rightarrow> run \<Rightarrow> run" where
  "after e r = r\<lparr>trace := e # trace r\<rparr>"

text \<open>Template literals print a number in decimal.\<close>

definition digit_char :: "nat \<Rightarrow> char" where
  "digit_char n = ''0123456789'' ! (n mod 10)"

fun show_nat :: "nat \<Rightarrow> string" where
  "show_nat n =
     (if n < 10 then [digit_char n] else show_nat (n div 10) @ [digit_char n])"

declare show_nat.simps [simp del]

text \<open>How control leaves the \<^verbatim>\<open>try\<close> block once \<^verbatim>\<open>fetch\<close> has settled.\<close>

datatype try_exit = Return response | Continue | Throw thrown

subsection \<open>The copy inside DocBotPage (lines 419--438)\<close>

text \<open>
  The \<^verbatim>\<open>try\<close> block, lines 421--431. A rejected \<^verbatim>\<open>fetch\<close> throws at the
  \<^verbatim>\<open>await\<close>; a response that is neither ok nor a 429 with iterations left
  throws the helper's own error. Both throws happen inside the \<^verbatim>\<open>try\<close>.
\<close>

definition try_DocBotPage :: "settled \<Rightarrow> locals \<Rightarrow> try_exit" where
  "try_DocBotPage fetched s =
     (case fetched of
        Rejected error \<Rightarrow> Throw error
      | Resolved response \<Rightarrow>
          if ok response then Return response
          else if status response = 429 \<and> i s < retries s - 1 then Continue
          else Throw (Error (''API returned status '' @ show_nat (status response))))"

text \<open>
  The \<^verbatim>\<open>for\<close> loop. \<open>Continue\<close> is lines 426--428; a throw lands in the
  \<^verbatim>\<open>catch\<close> of lines 432--436, which rethrows in the last iteration and
  otherwise waits, doubles the delay and falls through to \<^verbatim>\<open>i++\<close>.
\<close>

function loop_DocBotPage :: "transport \<Rightarrow> string \<Rightarrow> options \<Rightarrow> locals \<Rightarrow> run" where
  "loop_DocBotPage tr url opts s =
     (if i s < retries s then
        after (Fetch url opts)
          (case try_DocBotPage (tr 0) s of
             Return response \<Rightarrow> settle (Returned response) s
           | Continue \<Rightarrow>
               after (Wait (delay s))
                 (loop_DocBotPage (\<lambda>k. tr (Suc k)) url opts (s\<lparr>delay := delay s * 2, i := i s + 1\<rparr>))
           | Throw error \<Rightarrow>
               if i s = retries s - 1 then settle (Thrown error) s
               else
                 after (Wait (delay s))
                   (loop_DocBotPage (\<lambda>k. tr (Suc k)) url opts (s\<lparr>delay := delay s * 2, i := i s + 1\<rparr>)))
      else settle Undefined s)"
  by pat_completeness auto
termination
  by (relation "measure (\<lambda>(tr, url, opts, s). nat (retries s - i s))") auto

declare loop_DocBotPage.simps [simp del]

text \<open>
  Binding of the parameters after \<^verbatim>\<open>options\<close>: the caller's further arguments
  are a list, \<open>None\<close> standing for \<^verbatim>\<open>undefined\<close>. A parameter whose argument
  is missing or \<^verbatim>\<open>undefined\<close> takes its default; arguments beyond the last
  parameter are dropped.
\<close>

definition param :: "int option list \<Rightarrow> nat \<Rightarrow> int \<Rightarrow> int" where
  "param args k dflt =
     (if k < length args then (case args ! k of None \<Rightarrow> dflt | Some v \<Rightarrow> v) else dflt)"

definition fetchWithBackoff_DocBotPage ::
    "transport \<Rightarrow> string \<Rightarrow> options \<Rightarrow> int option list \<Rightarrow> run" where
  "fetchWithBackoff_DocBotPage tr url opts args =
     loop_DocBotPage tr url opts
       \<lparr>retries = param args 0 3, delay = param args 1 1000, i = 0\<rparr>"

subsection \<open>The copy inside PredictionPage (lines 705--724)\<close>

definition try_PredictionPage :: "settled \<Rightarrow> locals \<Rightarrow> try_exit" where
  "try_PredictionPage fetched s =
     (case fetched of
        Rejected error \<Rightarrow> Throw error
      | Resolved response \<Rightarrow>
          if ok response then Return response
          else if status response = 429 \<and> i s < retries s - 1 then Continue
          else Throw (Error (''API returned status '' @ show_nat (status response))))"

function loop_PredictionPage :: "transport \<Rightarrow> string \<Rightarrow> options \<Rightarrow> locals \<Rightarrow> run" where
  "loop_PredictionPage tr url opts s =
     (if i s < retries s then
        after (Fetch url opts)
          (case try_PredictionPage (tr 0) s of
             Return response \<Rightarrow> settle (Returned response) s
           | Continue \<Rightarrow>
               after (Wait (delay s))
                 (loop_PredictionPage (\<lambda>k. tr (Suc k)) url opts (s\<lparr>delay := delay s * 2, i := i s + 1\<rparr>))
           | Throw error \<Rightarrow>
               if i s = retries s - 1 then settle (Thrown error) s
               else
                 after (Wait (delay s))
                   (loop_PredictionPage (\<lambda>k. tr (Suc k)) url opts (s\<lparr>delay := delay s * 2, i := i s + 1\<rparr>)))
      else settle Undefined s)"
  by pat_completeness auto
termination
  by (relation "measure (\<lambda>(tr, url, opts, s). nat (retries s - i s))") auto

declare loop_PredictionPage.simps [simp del]

definition fetchWithBackoff_PredictionPage ::
    "transport \<Rightarrow> string \<Rightarrow> options \<Rightarrow> int option list \<Rightarrow> run" where
  "fetchWithBackoff_PredictionPage tr url opts args =
     loop_PredictionPage tr url opts
       \<lparr>retries = param args 0 3, delay = param args 1 1000, i = 0\<rparr>"

subsection \<open>Either copy, by the component that owns it\<close>

datatype page = DocBotPage | PredictionPage

definition fetchWithBackoff ::
    "page \<Rightarrow> transport \<Rightarrow> string \<Rightarrow> options \<Rightarrow> int option list \<Rightarrow> run" where
  "fetchWithBackoff pg tr url opts args =
     (case pg of
        DocBotPage \<Rightarrow> fetchWithBackoff_DocBotPage tr url opts args
      | PredictionPage \<Rightarrow> fetchWithBackoff_PredictionPage tr url opts args)"


section \<open>Vocabulary of the properties\<close>

text \<open>The number of \<^verbatim>\<open>fetch\<close> calls in a trace, and the delays waited, in order.\<close>

fun attempts :: "event list \<Rightarrow> nat" where
  "attempts [] = 0"
| "attempts (Fetch url opts # evs) = Suc (attempts evs)"
| "attempts (Wait d # evs) = attempts evs"

fun waits :: "event list \<Rightarrow> int list" where
  "waits [] = []"
| "waits (Fetch url opts # evs) = waits evs"
| "waits (Wait d # evs) = d # waits evs"

text \<open>
  An attempt succeeds when a response with a success status arrives. It fails
  transiently when \<^verbatim>\<open>fetch\<close> rejects or the response has status 429.
\<close>

fun success :: "settled \<Rightarrow> bool" where
  "success (Resolved response) = ok response"
| "success (Rejected error) = False"

fun transient :: "settled \<Rightarrow> bool" where
  "transient (Resolved response) = (status response = 429)"
| "transient (Rejected error) = True"

text \<open>
  The reason of a failed attempt: the value \<^verbatim>\<open>fetch\<close> rejected with, or the
  error naming the status of the response.
\<close>

fun reason :: "settled \<Rightarrow> thrown" where
  "reason (Resolved response) =
     Error (''API returned status '' @ show_nat (status response))"
| "reason (Rejected error) = error"

text \<open>
  The trace of \<open>k\<close> attempts that are each followed by a wait, the first wait
  being \<open>d\<close> and each later one twice the one before.
\<close>

fun schedule :: "string \<Rightarrow> options \<Rightarrow> nat \<Rightarrow> int \<Rightarrow> event list" where
  "schedule url opts 0 d = []"
| "schedule url opts (Suc k) d = Fetch url opts # Wait d # schedule url opts k (d * 2)"

definition prefixed :: "event list \<Rightarrow> run \<Rightarrow> run" where
  "prefixed evs r = r\<lparr>trace := evs @ trace r\<rparr>"

subsection \<open>Example inputs\<close>

text \<open>The request both call sites send, with an empty payload, and some responses.\<close>

definition example_url :: string where
  "example_url = ''https://generativelanguage.googleapis.com/''"

definition post_json :: options where
  "post_json = \<lparr>http_method = ''POST'', headers = [(''Content-Type'', ''application/json'')],
     body = ''{}''\<rparr>"

definition rate_limited :: response where
  "rate_limited = \<lparr>status = 429, content = ''''\<rparr>"

definition server_error :: response where
  "server_error = \<lparr>status = 500, content = ''''\<rparr>"

definition answer :: response where
  "answer = \<lparr>status = 200, content = ''{}''\<rparr>"

text \<open>A transport that settles every call the same way, and one that follows a script first.\<close>

definition always :: "settled \<Rightarrow> transport" where
  "always fetched = (\<lambda>k. fetched)"

definition script :: "settled list \<Rightarrow> settled \<Rightarrow> transport" where
  "script xs fetched = (\<lambda>k. if k < length xs then xs ! k else fetched)"

section \<open>The two copies agree\<close>

lemma loop_PredictionPage_eq:
  "loop_PredictionPage tr url opts s = loop_DocBotPage tr url opts s"
proof (induction tr url opts s rule: loop_DocBotPage.induct)
  case (1 tr url opts s)
  have t: "try_PredictionPage (tr 0) s = try_DocBotPage (tr 0) s"
    by (simp add: try_PredictionPage_def try_DocBotPage_def)
  show ?case
    using "1.IH"
    by (subst loop_PredictionPage.simps, subst loop_DocBotPage.simps)
       (auto simp add: t split: try_exit.splits)
qed

lemma fetchWithBackoff_loop:
  "fetchWithBackoff pg tr url opts args =
     loop_DocBotPage tr url opts
       \<lparr>retries = param args 0 3, delay = param args 1 1000, i = 0\<rparr>"
  by (cases pg)
     (simp_all add: fetchWithBackoff_def fetchWithBackoff_DocBotPage_def
        fetchWithBackoff_PredictionPage_def loop_PredictionPage_eq)

lemma param_given [simp]:
  "param (Some n # args) 0 dflt = n"
  "param (a # Some d # args) (Suc 0) dflt = d"
  "param (a # None # args) (Suc 0) dflt = dflt"
  "param (None # args) 0 dflt = dflt"
  "param [a] (Suc 0) dflt = dflt"
  "param [] k dflt = dflt"
  by (simp_all add: param_def)

section \<open>One iteration\<close>

lemma transient_not_success: "transient fetched \<Longrightarrow> \<not> success fetched"
  by (cases fetched) (simp_all add: ok_def)

lemma try_Return:
  "try_DocBotPage fetched s = Return response \<Longrightarrow> fetched = Resolved response \<and> ok response"
  by (cases fetched) (simp_all add: try_DocBotPage_def split: if_splits)

lemma try_Continue:
  "try_DocBotPage fetched s = Continue \<Longrightarrow> i s < retries s - 1 \<and> \<not> success fetched"
  by (cases fetched) (simp_all add: try_DocBotPage_def split: if_splits)

lemma try_Throw:
  "try_DocBotPage fetched s = Throw error \<Longrightarrow> error = reason fetched \<and> \<not> success fetched"
  by (cases fetched) (auto simp add: try_DocBotPage_def split: if_splits)

lemma not_success_try:
  "\<not> success fetched \<Longrightarrow> i s < retries s - 1 \<Longrightarrow>
     try_DocBotPage fetched s = Continue \<or> (\<exists>error. try_DocBotPage fetched s = Throw error)"
  by (cases fetched) (simp_all add: try_DocBotPage_def)

lemma not_success_try_last:
  "\<not> success fetched \<Longrightarrow> i s = retries s - 1 \<Longrightarrow>
     try_DocBotPage fetched s = Throw (reason fetched)"
  by (cases fetched) (simp_all add: try_DocBotPage_def)

lemma loop_retry:
  assumes "\<not> success (tr 0)" and "i s < retries s - 1"
  shows "loop_DocBotPage tr url opts s =
     after (Fetch url opts) (after (Wait (delay s))
       (loop_DocBotPage (\<lambda>k. tr (Suc k)) url opts (s\<lparr>delay := delay s * 2, i := i s + 1\<rparr>)))"
  using not_success_try [OF assms] assms(2)
  by (subst loop_DocBotPage.simps) auto

lemma loop_rethrow:
  assumes "\<not> success (tr 0)" and "i s = retries s - 1"
  shows "loop_DocBotPage tr url opts s =
     after (Fetch url opts) (settle (Thrown (reason (tr 0))) s)"
  using not_success_try_last [OF assms] assms(2)
  by (subst loop_DocBotPage.simps) simp

lemma loop_return:
  assumes "tr 0 = Resolved response" and "ok response" and "i s < retries s"
  shows "loop_DocBotPage tr url opts s =
     after (Fetch url opts) (settle (Returned response) s)"
  using assms
  by (subst loop_DocBotPage.simps) (simp add: try_DocBotPage_def)

lemma loop_skip:
  "\<not> i s < retries s \<Longrightarrow> loop_DocBotPage tr url opts s = settle Undefined s"
  by (subst loop_DocBotPage.simps) simp

section \<open>Several iterations\<close>

text \<open>
  While attempts fail and iterations are left, the loop fetches, waits and doubles
  the delay, whatever the kind of failure.
\<close>

lemma loop_retries:
  assumes "\<forall>j<k. \<not> success (tr j)" and "i s + int k < retries s"
  shows "loop_DocBotPage tr url opts s =
     prefixed (schedule url opts k (delay s))
       (loop_DocBotPage (\<lambda>j. tr (k + j)) url opts
          (s\<lparr>delay := delay s * 2 ^ k, i := i s + int k\<rparr>))"
  using assms
proof (induction k arbitrary: tr s)
  case 0
  show ?case by (simp add: prefixed_def)
next
  case (Suc k)
  let ?s = "s\<lparr>delay := delay s * 2, i := i s + 1\<rparr>"
  have first: "\<not> success (tr 0)" and room: "i s < retries s - 1"
    using Suc.prems by auto
  have rest: "\<forall>j<k. \<not> success ((\<lambda>k. tr (Suc k)) j)"
    using Suc.prems(1) by auto
  have left: "i ?s + int k < retries ?s"
    using Suc.prems(2) by simp
  have "loop_DocBotPage (\<lambda>k. tr (Suc k)) url opts ?s =
      prefixed (schedule url opts k (delay s * 2))
        (loop_DocBotPage (\<lambda>j. tr (Suc k + j)) url opts
           (s\<lparr>delay := delay s * 2 ^ Suc k, i := i s + int (Suc k)\<rparr>))"
    using Suc.IH [OF rest left] by (simp add: add_ac mult_ac)
  then show ?case
    by (simp add: loop_retry [where tr = tr and s = s, OF first room] after_def prefixed_def)
qed

lemma attempts_append [simp]: "attempts (xs @ ys) = attempts xs + attempts ys"
  by (induction xs rule: attempts.induct) simp_all

lemma waits_append [simp]: "waits (xs @ ys) = waits xs @ waits ys"
  by (induction xs rule: waits.induct) simp_all

lemma attempts_schedule [simp]: "attempts (schedule url opts k d) = k"
  by (induction k arbitrary: d) simp_all

lemma waits_schedule: "waits (schedule url opts k d) = map (\<lambda>j. d * 2 ^ j) [0..<k]"
proof (induction k arbitrary: d)
  case 0
  show ?case by simp
next
  case (Suc k)
  have "map (\<lambda>j. d * 2 ^ j) [0..<Suc k] = d # map (\<lambda>j. d * 2 * 2 ^ j) [0..<k]"
    by (simp add: map_upt_Suc mult.assoc del: upt_Suc)
  then show ?case using Suc.IH [of "d * 2"] by simp
qed

text \<open>Failures up to a success: the success is returned at once.\<close>

lemma loop_succeeds:
  assumes "\<forall>j<k. \<not> success (tr j)" and "tr k = Resolved response" and "ok response"
    and "i s + int k < retries s"
  shows "loop_DocBotPage tr url opts s =
     \<lparr>outcome = Returned response,
      vars = s\<lparr>delay := delay s * 2 ^ k, i := i s + int k\<rparr>,
      trace = schedule url opts k (delay s) @ [Fetch url opts]\<rparr>"
proof -
  let ?s = "s\<lparr>delay := delay s * 2 ^ k, i := i s + int k\<rparr>"
  have "loop_DocBotPage (\<lambda>j. tr (k + j)) url opts ?s =
      after (Fetch url opts) (settle (Returned response) ?s)"
    by (rule loop_return [where response = response]) (use assms in simp_all)
  then show ?thesis
    by (simp add: loop_retries [where tr = tr and s = s, OF assms(1,4)] prefixed_def after_def settle_def)
qed

text \<open>Failures through the last iteration: the last reason is thrown.\<close>

lemma loop_exhausts:
  assumes "\<forall>j\<le>k. \<not> success (tr j)" and "i s + int k = retries s - 1"
  shows "loop_DocBotPage tr url opts s =
     \<lparr>outcome = Thrown (reason (tr k)),
      vars = s\<lparr>delay := delay s * 2 ^ k, i := i s + int k\<rparr>,
      trace = schedule url opts k (delay s) @ [Fetch url opts]\<rparr>"
proof -
  let ?s = "s\<lparr>delay := delay s * 2 ^ k, i := i s + int k\<rparr>"
  have before: "\<forall>j<k. \<not> success (tr j)" and room: "i s + int k < retries s"
    using assms by auto
  have "loop_DocBotPage (\<lambda>j. tr (k + j)) url opts ?s =
      after (Fetch url opts) (settle (Thrown (reason (tr (k + 0)))) ?s)"
    by (rule loop_rethrow) (use assms in simp_all)
  then show ?thesis
    by (simp add: loop_retries [where tr = tr and s = s, OF before room] prefixed_def after_def settle_def)
qed

section \<open>Every run\<close>

lemma loop_settles:
  "i s < retries s \<Longrightarrow>
     outcome (loop_DocBotPage tr url opts s) \<noteq> Undefined \<and>
     (\<forall>response. outcome (loop_DocBotPage tr url opts s) = Returned response \<longrightarrow> ok response) \<and>
     1 \<le> attempts (trace (loop_DocBotPage tr url opts s)) \<and>
     int (attempts (trace (loop_DocBotPage tr url opts s))) \<le> retries s - i s"
proof (induction tr url opts s rule: loop_DocBotPage.induct)
  case (1 tr url opts s)
  let ?s = "s\<lparr>delay := delay s * 2, i := i s + 1\<rparr>"
  show ?case
  proof (cases "try_DocBotPage (tr 0) s")
    case (Return response)
    then show ?thesis
      using "1.prems" try_Return [OF Return]
      by (subst (1 2 3 4) loop_DocBotPage.simps) (simp add: after_def settle_def)
  next
    case Continue
    have "i ?s < retries ?s" using try_Continue [OF Continue] by simp
    from "1.IH"(1) [OF "1.prems" Continue this] show ?thesis
      using "1.prems" Continue
      by (subst (1 2 3 4) loop_DocBotPage.simps) (simp add: after_def)
  next
    case (Throw error)
    show ?thesis
    proof (cases "i s = retries s - 1")
      case True
      then show ?thesis
        using "1.prems" Throw
        by (subst (1 2 3 4) loop_DocBotPage.simps) (simp add: after_def settle_def)
    next
      case False
      have "i ?s < retries ?s" using False "1.prems" by simp
      from "1.IH"(2) [OF "1.prems" Throw False this] show ?thesis
        using "1.prems" Throw False
        by (subst (1 2 3 4) loop_DocBotPage.simps) (simp add: after_def)
    qed
  qed
qed

lemma loop_thrown:
  "outcome (loop_DocBotPage tr url opts s) = Thrown error \<Longrightarrow>
     1 \<le> attempts (trace (loop_DocBotPage tr url opts s)) \<and>
     error = reason (tr (attempts (trace (loop_DocBotPage tr url opts s)) - 1)) \<and>
     \<not> success (tr (attempts (trace (loop_DocBotPage tr url opts s)) - 1))"
proof (induction tr url opts s rule: loop_DocBotPage.induct)
  case (1 tr url opts s)
  let ?s = "s\<lparr>delay := delay s * 2, i := i s + 1\<rparr>"
  let ?rest = "loop_DocBotPage (\<lambda>k. tr (Suc k)) url opts ?s"
  have unfold: "loop_DocBotPage tr url opts s =
     (if i s < retries s then
        after (Fetch url opts)
          (case try_DocBotPage (tr 0) s of
             Return response \<Rightarrow> settle (Returned response) s
           | Continue \<Rightarrow> after (Wait (delay s)) ?rest
           | Throw error \<Rightarrow>
               if i s = retries s - 1 then settle (Thrown error) s
               else after (Wait (delay s)) ?rest)
      else settle Undefined s)"
    by (rule loop_DocBotPage.simps)
  have step: "1 \<le> attempts (trace (loop_DocBotPage tr url opts s)) \<and>
     error = reason (tr (attempts (trace (loop_DocBotPage tr url opts s)) - 1)) \<and>
     \<not> success (tr (attempts (trace (loop_DocBotPage tr url opts s)) - 1))"
    if again: "loop_DocBotPage tr url opts s = after (Fetch url opts) (after (Wait (delay s)) ?rest)"
      and ih: "outcome ?rest = Thrown error \<Longrightarrow>
         1 \<le> attempts (trace ?rest) \<and>
         error = reason ((\<lambda>k. tr (Suc k)) (attempts (trace ?rest) - 1)) \<and>
         \<not> success ((\<lambda>k. tr (Suc k)) (attempts (trace ?rest) - 1))"
  proof -
    have "outcome ?rest = Thrown error"
      using "1.prems" again by (simp add: after_def)
    from ih [OF this] show ?thesis
      by (auto simp add: again after_def)
  qed
  have live: "i s < retries s"
    using "1.prems" unfold by (auto simp add: settle_def split: if_splits)
  show ?case
  proof (cases "try_DocBotPage (tr 0) s")
    case (Return response)
    then show ?thesis
      using "1.prems" live unfold by (simp add: after_def settle_def)
  next
    case Continue
    have "loop_DocBotPage tr url opts s = after (Fetch url opts) (after (Wait (delay s)) ?rest)"
      using unfold live Continue by simp
    then show ?thesis
      using "1.IH"(1) [OF live Continue] by (rule step)
  next
    case (Throw e)
    show ?thesis
    proof (cases "i s = retries s - 1")
      case True
      have "loop_DocBotPage tr url opts s = after (Fetch url opts) (settle (Thrown e) s)"
        using unfold live Throw True by simp
      then show ?thesis
        using "1.prems" try_Throw [OF Throw] by (simp add: after_def settle_def)
    next
      case False
      have "loop_DocBotPage tr url opts s = after (Fetch url opts) (after (Wait (delay s)) ?rest)"
        using unfold live Throw False by simp
      then show ?thesis
        using "1.IH"(2) [OF live Throw False] by (rule step)
    qed
  qed
qed

text \<open>The waits of any run double from the delay the run starts with.\<close>

lemma loop_waits:
  "waits (trace (loop_DocBotPage tr url opts s)) =
     map (\<lambda>j. delay s * 2 ^ j) [0..<length (waits (trace (loop_DocBotPage tr url opts s)))]"
proof (induction tr url opts s rule: loop_DocBotPage.induct)
  case (1 tr url opts s)
  let ?s = "s\<lparr>delay := delay s * 2, i := i s + 1\<rparr>"
  let ?rest = "loop_DocBotPage (\<lambda>k. tr (Suc k)) url opts ?s"
  have unfold: "loop_DocBotPage tr url opts s =
     (if i s < retries s then
        after (Fetch url opts)
          (case try_DocBotPage (tr 0) s of
             Return response \<Rightarrow> settle (Returned response) s
           | Continue \<Rightarrow> after (Wait (delay s)) ?rest
           | Throw error \<Rightarrow>
               if i s = retries s - 1 then settle (Thrown error) s
               else after (Wait (delay s)) ?rest)
      else settle Undefined s)"
    by (rule loop_DocBotPage.simps)
  have step: "waits (trace (loop_DocBotPage tr url opts s)) =
       map (\<lambda>j. delay s * 2 ^ j) [0..<length (waits (trace (loop_DocBotPage tr url opts s)))]"
    if again: "loop_DocBotPage tr url opts s = after (Fetch url opts) (after (Wait (delay s)) ?rest)"
      and ih: "waits (trace ?rest) = map (\<lambda>j. delay ?s * 2 ^ j) [0..<length (waits (trace ?rest))]"
  proof -
    let ?m = "length (waits (trace ?rest))"
    have w: "waits (trace (loop_DocBotPage tr url opts s)) = delay s # waits (trace ?rest)"
      by (simp add: again after_def)
    have "map (\<lambda>j. delay s * 2 ^ j) [0..<Suc ?m] = delay s # map (\<lambda>j. delay s * 2 * 2 ^ j) [0..<?m]"
      by (simp add: map_upt_Suc mult.assoc del: upt_Suc)
    also have "\<dots> = delay s # waits (trace ?rest)"
      using ih by simp
    finally show ?thesis
      by (simp add: w del: upt_Suc)
  qed
  show ?case
  proof (cases "i s < retries s")
    case False
    then show ?thesis using unfold by (simp add: settle_def)
  next
    case live: True
    show ?thesis
    proof (cases "try_DocBotPage (tr 0) s")
      case (Return response)
      then show ?thesis using live unfold by (simp add: after_def settle_def)
    next
      case Continue
      have "loop_DocBotPage tr url opts s = after (Fetch url opts) (after (Wait (delay s)) ?rest)"
        using unfold live Continue by simp
      then show ?thesis
        using "1.IH"(1) [OF live Continue] by (rule step)
    next
      case (Throw e)
      show ?thesis
      proof (cases "i s = retries s - 1")
        case True
        then show ?thesis using live unfold Throw by (simp add: after_def settle_def)
      next
        case False
        have "loop_DocBotPage tr url opts s = after (Fetch url opts) (after (Wait (delay s)) ?rest)"
          using unfold live Throw False by simp
        then show ?thesis
          using "1.IH"(2) [OF live Throw False] by (rule step)
      qed
    qed
  qed
qed

lemma loop_wait_nth:
  assumes "1 \<le> j" and "j \<le> length (waits (trace (loop_DocBotPage tr url opts s)))"
  shows "waits (trace (loop_DocBotPage tr url opts s)) ! (j - 1) = delay s * 2 ^ (j - 1)"
proof -
  let ?ws = "waits (trace (loop_DocBotPage tr url opts s))"
  have "j - 1 < length ?ws"
    using assms by simp
  then have "map (\<lambda>j. delay s * 2 ^ j) [0..<length ?ws] ! (j - 1) = delay s * 2 ^ (j - 1)"
    by simp
  then show ?thesis
    using loop_waits [of tr url opts s] by simp
qed

text \<open>The parameter \<^verbatim>\<open>retries\<close> is never assigned.\<close>

lemma loop_retries_kept:
  "retries (vars (loop_DocBotPage tr url opts s)) = retries s"
proof (induction tr url opts s rule: loop_DocBotPage.induct)
  case (1 tr url opts s)
  show ?case
    using "1.IH"
    by (subst loop_DocBotPage.simps)
       (auto simp add: after_def settle_def split: try_exit.splits)
qed

text \<open>
  A run with iterations left is decided by the transport: it stops at the first
  attempt that succeeds and returns what that attempt resolved with, or, when no
  attempt within the budget succeeds, it throws the reason of the last one.
\<close>

lemma loop_decided:
  assumes "i s < retries s"
  shows "\<exists>m. 1 \<le> m \<and> int m \<le> retries s - i s \<and> (\<forall>j<m - 1. \<not> success (tr j)) \<and>
     trace (loop_DocBotPage tr url opts s) =
       schedule url opts (m - 1) (delay s) @ [Fetch url opts] \<and>
     ((\<exists>response. tr (m - 1) = Resolved response \<and> ok response \<and>
         outcome (loop_DocBotPage tr url opts s) = Returned response) \<or>
      (\<not> success (tr (m - 1)) \<and> int m = retries s - i s \<and>
         outcome (loop_DocBotPage tr url opts s) = Thrown (reason (tr (m - 1)))))"
proof (cases "\<exists>k. int k < retries s - i s \<and> success (tr k)")
  case True
  then obtain k where k: "int k < retries s - i s \<and> success (tr k)"
    and least: "\<forall>j<k. \<not> (int j < retries s - i s \<and> success (tr j))"
    using exists_least_iff [of "\<lambda>k. int k < retries s - i s \<and> success (tr k)"] by blast
  have before: "\<forall>j<k. \<not> success (tr j)"
    using k least by auto
  from k obtain response where r: "tr k = Resolved response" "ok response"
    by (cases "tr k") simp_all
  have room: "i s + int k < retries s"
    using k by simp
  note run = loop_succeeds [where tr = tr and s = s and k = k and url = url and opts = opts,
      OF before r room]
  show ?thesis
  proof (intro exI [of _ "Suc k"] conjI)
    show "(\<exists>response. tr (Suc k - 1) = Resolved response \<and> ok response \<and>
           outcome (loop_DocBotPage tr url opts s) = Returned response) \<or>
        (\<not> success (tr (Suc k - 1)) \<and> int (Suc k) = retries s - i s \<and>
           outcome (loop_DocBotPage tr url opts s) = Thrown (reason (tr (Suc k - 1))))"
      using r by (simp add: run)
  qed (use k before in \<open>simp_all add: run\<close>)
next
  case False
  let ?k = "nat (retries s - i s) - 1"
  have fails: "\<forall>j\<le>?k. \<not> success (tr j)"
    using False assms by auto
  have last: "i s + int ?k = retries s - 1"
    using assms by simp
  note run = loop_exhausts [where tr = tr and s = s and k = ?k and url = url and opts = opts,
      OF fails last]
  show ?thesis
  proof (intro exI [of _ "Suc ?k"] conjI)
    show "(\<exists>response. tr (Suc ?k - 1) = Resolved response \<and> ok response \<and>
           outcome (loop_DocBotPage tr url opts s) = Returned response) \<or>
        (\<not> success (tr (Suc ?k - 1)) \<and> int (Suc ?k) = retries s - i s \<and>
           outcome (loop_DocBotPage tr url opts s) = Thrown (reason (tr (Suc ?k - 1))))"
      using fails assms by (simp add: run)
  qed (use fails assms in \<open>simp_all add: run\<close>)
qed

section \<open>The claims\<close>

text \<open>
  C1. The claim: a response that is neither a success nor a 429 on the first attempt
  makes the helper raise at once, after exactly one attempt and no wait, for any
  number of retries from 1 up. The code at the default arguments, with a transport
  that answers 500 every time: the error thrown in the \<^verbatim>\<open>try\<close> block is caught by
  the \<^verbatim>\<open>catch\<close> of the same iteration, which waits and goes on; the helper
  fetches three times, waiting 1000 and 2000 in between, before it throws.
\<close>

theorem fatal_status_is_retried:
  "outcome (fetchWithBackoff pg (always (Resolved server_error)) url opts []) =
     Thrown (Error ''API returned status 500'') \<and>
   trace (fetchWithBackoff pg (always (Resolved server_error)) url opts []) =
     [Fetch url opts, Wait 1000, Fetch url opts, Wait 2000, Fetch url opts] \<and>
   attempts (trace (fetchWithBackoff pg (always (Resolved server_error)) url opts [])) = 3"
proof -
  let ?tr = "always (Resolved server_error)"
  let ?s = "\<lparr>retries = 3, delay = 1000, i = 0\<rparr>"
  have fails: "\<forall>j\<le>2. \<not> success (?tr j)"
    by (simp add: always_def server_error_def ok_def)
  have last: "i ?s + int 2 = retries ?s - 1"
    by simp
  have msg: "reason (?tr 2) = Error ''API returned status 500''"
    by (simp add: always_def server_error_def show_nat.simps digit_char_def)
  have sched: "schedule url opts 2 1000 = [Fetch url opts, Wait 1000, Fetch url opts, Wait 2000]"
    by (simp add: numeral_2_eq_2)
  show ?thesis
    by (simp add: fetchWithBackoff_loop
        loop_exhausts [where tr = ?tr and s = ?s and k = 2, OF fails last] msg sched)
qed

text \<open>
  C2. For every number of retries \<open>n \<ge> 1\<close>: when every attempt fails transiently
  (\<^verbatim>\<open>fetch\<close> rejects, or the response has status 429), the helper fetches exactly
  \<open>n\<close> times, waits between the attempts only, and then throws the reason of the
  last failure.
\<close>

theorem exhaustion_after_n_attempts:
  assumes "1 \<le> n" and "\<forall>k<n. transient (tr k)"
  shows "outcome (fetchWithBackoff pg tr url opts [Some (int n), Some d]) =
           Thrown (reason (tr (n - 1))) \<and>
         attempts (trace (fetchWithBackoff pg tr url opts [Some (int n), Some d])) = n \<and>
         trace (fetchWithBackoff pg tr url opts [Some (int n), Some d]) =
           schedule url opts (n - 1) d @ [Fetch url opts]"
proof -
  let ?s = "\<lparr>retries = int n, delay = d, i = 0\<rparr>"
  have fails: "\<forall>j\<le>n - 1. \<not> success (tr j)"
    using assms by (auto intro!: transient_not_success)
  have last: "i ?s + int (n - 1) = retries ?s - 1"
    using assms(1) by simp
  show ?thesis
    using assms(1)
    by (simp add: fetchWithBackoff_loop
        loop_exhausts [where tr = tr and s = ?s and k = "n - 1", OF fails last])
qed

theorem exhaustion_after_n_attempts_witness:
  "(1::nat) \<le> 3 \<and>
   transient (always (Rejected (TypeError ''Failed to fetch'')) 0) \<and>
   transient (always (Rejected (TypeError ''Failed to fetch'')) 1) \<and>
   transient (always (Rejected (TypeError ''Failed to fetch'')) 2) \<and>
   outcome (fetchWithBackoff DocBotPage (always (Rejected (TypeError ''Failed to fetch'')))
      example_url post_json [Some 3, Some 1000]) = Thrown (TypeError ''Failed to fetch'') \<and>
   attempts (trace (fetchWithBackoff DocBotPage (always (Rejected (TypeError ''Failed to fetch'')))
      example_url post_json [Some 3, Some 1000])) = 3 \<and>
   transient (always (Resolved rate_limited) 0) \<and>
   transient (always (Resolved rate_limited) 1) \<and>
   outcome (fetchWithBackoff PredictionPage (always (Resolved rate_limited))
      example_url post_json [Some 2, Some 1000]) = Thrown (Error ''API returned status 429'') \<and>
   attempts (trace (fetchWithBackoff PredictionPage (always (Resolved rate_limited))
      example_url post_json [Some 2, Some 1000])) = 2"
  using
    exhaustion_after_n_attempts [where n = 3 and pg = DocBotPage and url = example_url
      and opts = post_json and d = 1000
      and tr = "always (Rejected (TypeError ''Failed to fetch''))"]
    exhaustion_after_n_attempts [where n = 2 and pg = PredictionPage and url = example_url
      and opts = post_json and d = 1000 and tr = "always (Resolved rate_limited)"]
  by (simp add: always_def rate_limited_def show_nat.simps digit_char_def)

text \<open>
  C3. For every number of retries \<open>n \<ge> 1\<close> and every transport, the run ends
  (the loop is a total function) and ends in one of two ways: a response with a
  success status is returned, or an error is thrown. It never ends with
  \<^verbatim>\<open>undefined\<close>, and it fetches at least once and at most \<open>n\<close> times. Nothing
  is swallowed or made up: the run stops at its last \<^verbatim>\<open>fetch\<close>, every attempt
  before it failed and was followed by a wait; a returned response is the one that
  last \<^verbatim>\<open>fetch\<close> resolved with; a thrown error is the reason of the \<open>n\<close>-th
  attempt, after \<open>n\<close> failures. So a success within the budget is always returned,
  and \<open>n\<close> failures always throw.
\<close>

theorem settles_with_response_or_error:
  assumes "1 \<le> n"
  shows "((\<exists>response. outcome (fetchWithBackoff pg tr url opts [Some n, Some d]) =
              Returned response \<and> ok response) \<or>
          (\<exists>error. outcome (fetchWithBackoff pg tr url opts [Some n, Some d]) = Thrown error)) \<and>
         outcome (fetchWithBackoff pg tr url opts [Some n, Some d]) \<noteq> Undefined \<and>
         1 \<le> attempts (trace (fetchWithBackoff pg tr url opts [Some n, Some d])) \<and>
         int (attempts (trace (fetchWithBackoff pg tr url opts [Some n, Some d]))) \<le> n \<and>
         trace (fetchWithBackoff pg tr url opts [Some n, Some d]) =
           schedule url opts
             (attempts (trace (fetchWithBackoff pg tr url opts [Some n, Some d])) - 1) d @
           [Fetch url opts] \<and>
         (\<forall>j<attempts (trace (fetchWithBackoff pg tr url opts [Some n, Some d])) - 1.
            \<not> success (tr j)) \<and>
         (\<forall>response. outcome (fetchWithBackoff pg tr url opts [Some n, Some d]) = Returned response \<longrightarrow>
            tr (attempts (trace (fetchWithBackoff pg tr url opts [Some n, Some d])) - 1) =
              Resolved response) \<and>
         (\<forall>error. outcome (fetchWithBackoff pg tr url opts [Some n, Some d]) = Thrown error \<longrightarrow>
            error = reason (tr (attempts (trace (fetchWithBackoff pg tr url opts [Some n, Some d])) - 1)) \<and>
            \<not> success (tr (attempts (trace (fetchWithBackoff pg tr url opts [Some n, Some d])) - 1)) \<and>
            int (attempts (trace (fetchWithBackoff pg tr url opts [Some n, Some d]))) = n) \<and>
         ((\<exists>k. int k < n \<and> success (tr k)) \<longrightarrow>
            (\<exists>response. outcome (fetchWithBackoff pg tr url opts [Some n, Some d]) =
               Returned response)) \<and>
         ((\<forall>k. int k < n \<longrightarrow> \<not> success (tr k)) \<longrightarrow>
            outcome (fetchWithBackoff pg tr url opts [Some n, Some d]) =
              Thrown (reason (tr (nat n - 1))))"
proof -
  let ?s = "\<lparr>retries = n, delay = d, i = 0\<rparr>"
  let ?r = "loop_DocBotPage tr url opts ?s"
  have run: "fetchWithBackoff pg tr url opts [Some n, Some d] = ?r"
    by (simp add: fetchWithBackoff_loop)
  have live: "i ?s < retries ?s"
    using assms by simp
  from loop_decided [where tr = tr and url = url and opts = opts and s = ?s, OF live]
  obtain m where m: "1 \<le> m" "int m \<le> n" "\<forall>j<m - 1. \<not> success (tr j)"
    and tr: "trace ?r = schedule url opts (m - 1) d @ [Fetch url opts]"
    and out: "(\<exists>response. tr (m - 1) = Resolved response \<and> ok response \<and>
                 outcome ?r = Returned response) \<or>
              (\<not> success (tr (m - 1)) \<and> int m = n \<and>
                 outcome ?r = Thrown (reason (tr (m - 1))))"
    by auto
  have count: "attempts (trace ?r) = m"
    using m(1) by (simp add: tr)
  have upto: "\<not> success (tr k)" if "k < m - 1 \<or> (k = m - 1 \<and> \<not> success (tr (m - 1)))" for k
    using that m(3) by auto
  from out show ?thesis
  proof (elim disjE exE conjE)
    fix response
    assume r: "tr (m - 1) = Resolved response" "ok response" "outcome ?r = Returned response"
    have "success (tr (m - 1))" and "int (m - 1) < n"
      using r m by simp_all
    then have some: "\<not> (\<forall>k. int k < n \<longrightarrow> \<not> success (tr k))"
      by blast
    show ?thesis
      unfolding run count
      using m r tr some by simp
  next
    assume f: "\<not> success (tr (m - 1))" "int m = n" "outcome ?r = Thrown (reason (tr (m - 1)))"
    have every: "\<not> success (tr k)" if "int k < n" for k
    proof (cases "k < m - 1")
      case True
      then show ?thesis using m(3) by simp
    next
      case False
      then have "k = m - 1" using that f(2) by simp
      then show ?thesis using f(1) by simp
    qed
    have "nat n - 1 = m - 1"
      using f(2) by auto
    then show ?thesis
      unfolding run count
      using m f tr every by auto
  qed
qed

theorem settles_with_response_or_error_witness:
  "(1::int) \<le> 3 \<and>
   outcome (fetchWithBackoff DocBotPage
      (script [Rejected (TypeError ''Failed to fetch''), Resolved server_error] (Resolved answer))
      example_url post_json [Some 3, Some 1000]) = Returned answer \<and>
   outcome (fetchWithBackoff DocBotPage
      (script [Rejected (TypeError ''Failed to fetch''), Resolved server_error] (Resolved answer))
      example_url post_json [Some 3, Some 1000]) \<noteq> Undefined \<and>
   script [Rejected (TypeError ''Failed to fetch''), Resolved server_error] (Resolved answer)
     (attempts (trace (fetchWithBackoff DocBotPage
        (script [Rejected (TypeError ''Failed to fetch''), Resolved server_error] (Resolved answer))
        example_url post_json [Some 3, Some 1000])) - 1) = Resolved answer \<and>
   (1::int) \<le> 2 \<and>
   outcome (fetchWithBackoff PredictionPage (always (Rejected (TypeError ''Failed to fetch'')))
      example_url post_json [Some 2, Some 1000]) = Thrown (TypeError ''Failed to fetch'') \<and>
   int (attempts (trace (fetchWithBackoff PredictionPage
      (always (Rejected (TypeError ''Failed to fetch'')))
      example_url post_json [Some 2, Some 1000]))) = 2"
proof -
  let ?tr = "script [Rejected (TypeError ''Failed to fetch''), Resolved server_error] (Resolved answer)"
  let ?down = "always (Rejected (TypeError ''Failed to fetch''))"
  have three: "(1::int) \<le> 3" and two: "(1::int) \<le> 2"
    by simp_all
  note first = settles_with_response_or_error [where n = 3 and pg = DocBotPage and tr = ?tr
      and url = example_url and opts = post_json and d = 1000, OF three]
  note second = settles_with_response_or_error [where n = 2 and pg = PredictionPage
      and tr = ?down and url = example_url and opts = post_json and d = 1000, OF two]
  have miss: "\<forall>k. int k < 2 \<longrightarrow> \<not> success (?down k)"
    by (simp add: always_def)
  let ?s = "\<lparr>retries = 3, delay = 1000, i = 0\<rparr>"
  have fails: "\<forall>j<2. \<not> success (?tr j)"
    by (simp add: script_def server_error_def ok_def less_Suc_eq numeral_2_eq_2)
  have third: "?tr 2 = Resolved answer"
    by (simp add: script_def)
  have good: "ok answer"
    by (simp add: answer_def ok_def)
  have room: "i ?s + int 2 < retries ?s"
    by simp
  have a: "outcome (fetchWithBackoff DocBotPage ?tr example_url post_json [Some 3, Some 1000]) =
      Returned answer"
    by (simp add: fetchWithBackoff_loop
        loop_succeeds [where tr = ?tr and s = ?s and k = 2, OF fails third good room])
  with first have b: "?tr (attempts (trace (fetchWithBackoff DocBotPage ?tr example_url post_json
      [Some 3, Some 1000])) - 1) = Resolved answer"
    by blast
  from second miss have thrown: "outcome (fetchWithBackoff PredictionPage ?down example_url
      post_json [Some 2, Some 1000]) = Thrown (reason (?down (nat 2 - 1)))"
    by simp
  then have c: "outcome (fetchWithBackoff PredictionPage ?down example_url
      post_json [Some 2, Some 1000]) = Thrown (TypeError ''Failed to fetch'')"
    by (simp add: always_def)
  with second have e: "int (attempts (trace (fetchWithBackoff PredictionPage ?down example_url
      post_json [Some 2, Some 1000]))) = 2"
    by simp
  show ?thesis
    using a b c e by simp
qed

text \<open>
  C4. For every number of retries \<open>n\<close> and every \<open>k\<close> with \<open>1 \<le> k \<le> n\<close>: when the
  first \<open>k - 1\<close> attempts fail transiently and attempt \<open>k\<close> brings a response with a
  success status, the helper returns that response, and the \<open>k\<close>-th call of
  \<^verbatim>\<open>fetch\<close> is the last thing it does: \<open>k\<close> attempts, \<open>k - 1\<close> waits, none after.
\<close>

theorem success_on_attempt_k:
  assumes "1 \<le> k" and "int k \<le> n"
    and "\<forall>j<k - 1. transient (tr j)"
    and "tr (k - 1) = Resolved response" and "ok response"
  shows "outcome (fetchWithBackoff pg tr url opts [Some n, Some d]) = Returned response \<and>
         trace (fetchWithBackoff pg tr url opts [Some n, Some d]) =
           schedule url opts (k - 1) d @ [Fetch url opts] \<and>
         attempts (trace (fetchWithBackoff pg tr url opts [Some n, Some d])) = k \<and>
         length (waits (trace (fetchWithBackoff pg tr url opts [Some n, Some d]))) = k - 1"
proof -
  let ?s = "\<lparr>retries = n, delay = d, i = 0\<rparr>"
  have fails: "\<forall>j<k - 1. \<not> success (tr j)"
    using assms(3) by (auto intro!: transient_not_success)
  have room: "i ?s + int (k - 1) < retries ?s"
    using assms(1,2) by simp
  show ?thesis
    using assms(1)
    by (simp add: fetchWithBackoff_loop waits_schedule
        loop_succeeds [where tr = tr and s = ?s and k = "k - 1", OF fails assms(4,5) room])
qed

theorem success_on_attempt_k_witness:
  "(1::nat) \<le> 2 \<and> int 2 \<le> 3 \<and>
   transient (script [Resolved rate_limited] (Resolved answer) 0) \<and>
   script [Resolved rate_limited] (Resolved answer) (2 - 1) = Resolved answer \<and> ok answer \<and>
   outcome (fetchWithBackoff PredictionPage (script [Resolved rate_limited] (Resolved answer))
      example_url post_json [Some 3, Some 1000]) = Returned answer \<and>
   attempts (trace (fetchWithBackoff PredictionPage (script [Resolved rate_limited] (Resolved answer))
      example_url post_json [Some 3, Some 1000])) = 2 \<and>
   length (waits (trace (fetchWithBackoff PredictionPage
      (script [Resolved rate_limited] (Resolved answer))
      example_url post_json [Some 3, Some 1000]))) = 1"
  using success_on_attempt_k [where k = 2 and n = 3 and pg = PredictionPage
      and tr = "script [Resolved rate_limited] (Resolved answer)" and response = answer
      and url = example_url and opts = post_json and d = 1000]
  by (simp add: script_def rate_limited_def answer_def ok_def)


text \<open>
  C5. With 3 retries and an initial delay of 1000 ms, a transport that answers 429 on
  attempts 1 and 2 and a success status on attempt 3 makes the helper wait 1000 ms
  between attempts 1 and 2 and 2000 ms between attempts 2 and 3, fetch exactly 3
  times and return the success. In general, in any run, the wait before retry \<open>j\<close>
  is the initial delay times \<open>2 ^ (j - 1)\<close>.
\<close>

theorem backoff_delays:
  assumes "tr 0 = Resolved ra" and "status ra = 429"
    and "tr 1 = Resolved rb" and "status rb = 429"
    and "tr 2 = Resolved rc" and "ok rc"
  shows "outcome (fetchWithBackoff pg tr url opts [Some 3, Some 1000]) = Returned rc \<and>
         trace (fetchWithBackoff pg tr url opts [Some 3, Some 1000]) =
           [Fetch url opts, Wait 1000, Fetch url opts, Wait 2000, Fetch url opts] \<and>
         waits (trace (fetchWithBackoff pg tr url opts [Some 3, Some 1000])) = [1000, 2000] \<and>
         attempts (trace (fetchWithBackoff pg tr url opts [Some 3, Some 1000])) = 3 \<and>
         (\<forall>j. 1 \<le> j \<and> j \<le> length (waits (trace (fetchWithBackoff pg tr' url' opts' [Some n, Some d]))) \<longrightarrow>
            waits (trace (fetchWithBackoff pg tr' url' opts' [Some n, Some d])) ! (j - 1) =
              d * 2 ^ (j - 1))"
proof -
  let ?s = "\<lparr>retries = 3, delay = 1000, i = 0\<rparr>"
  have fails: "\<forall>j<2. \<not> success (tr j)"
    using assms(1-4) by (auto simp add: less_Suc_eq numeral_2_eq_2 ok_def)
  have room: "i ?s + int 2 < retries ?s"
    by simp
  have sched: "schedule url opts 2 1000 = [Fetch url opts, Wait 1000, Fetch url opts, Wait 2000]"
    by (simp add: numeral_2_eq_2)
  have scenario: "loop_DocBotPage tr url opts ?s =
      \<lparr>outcome = Returned rc, vars = \<lparr>retries = 3, delay = 4000, i = 2\<rparr>,
       trace = [Fetch url opts, Wait 1000, Fetch url opts, Wait 2000, Fetch url opts]\<rparr>"
    using loop_succeeds [where tr = tr and s = ?s and k = 2 and url = url and opts = opts,
        OF fails assms(5,6) room]
    by (simp add: sched)
  have general: "waits (trace (loop_DocBotPage tr' url' opts' \<lparr>retries = n, delay = d, i = 0\<rparr>)) ! (j - 1) =
      d * 2 ^ (j - 1)"
    if "1 \<le> j"
      and "j \<le> length (waits (trace (loop_DocBotPage tr' url' opts' \<lparr>retries = n, delay = d, i = 0\<rparr>)))"
    for j
    using loop_wait_nth [OF that] by simp
  show ?thesis
    using general by (simp add: fetchWithBackoff_loop scenario)
qed

theorem backoff_delays_witness:
  "script [Resolved rate_limited, Resolved rate_limited] (Resolved answer) 0 = Resolved rate_limited \<and>
   status rate_limited = 429 \<and>
   script [Resolved rate_limited, Resolved rate_limited] (Resolved answer) 2 = Resolved answer \<and>
   ok answer \<and>
   outcome (fetchWithBackoff DocBotPage
      (script [Resolved rate_limited, Resolved rate_limited] (Resolved answer))
      example_url post_json [Some 3, Some 1000]) = Returned answer \<and>
   waits (trace (fetchWithBackoff DocBotPage
      (script [Resolved rate_limited, Resolved rate_limited] (Resolved answer))
      example_url post_json [Some 3, Some 1000])) = [1000, 2000] \<and>
   waits (trace (fetchWithBackoff DocBotPage
      (script [Resolved rate_limited, Resolved rate_limited] (Resolved answer))
      example_url post_json [Some 3, Some 1000])) ! (2 - 1) = 1000 * 2 ^ (2 - 1)"
  using backoff_delays [where pg = DocBotPage
      and tr = "script [Resolved rate_limited, Resolved rate_limited] (Resolved answer)"
      and ra = rate_limited and rb = rate_limited and rc = answer
      and url = example_url and opts = post_json
      and tr' = "script [Resolved rate_limited, Resolved rate_limited] (Resolved answer)"
      and url' = example_url and opts' = post_json and n = 3 and d = 1000]
  by (simp add: script_def rate_limited_def answer_def ok_def)

text \<open>
  C6. With 1 retry the helper fetches exactly once and never waits, whatever the
  attempt brings; when the attempt fails in any way (a 429, any other error status,
  a rejected \<^verbatim>\<open>fetch\<close>) it throws the reason of that failure.
\<close>

theorem single_attempt_budget:
  "trace (fetchWithBackoff pg tr url opts [Some 1, Some d]) = [Fetch url opts] \<and>
   (\<forall>response. tr 0 = Resolved response \<and> ok response \<longrightarrow>
      outcome (fetchWithBackoff pg tr url opts [Some 1, Some d]) = Returned response) \<and>
   (\<not> success (tr 0) \<longrightarrow>
      outcome (fetchWithBackoff pg tr url opts [Some 1, Some d]) = Thrown (reason (tr 0)))"
proof (cases "success (tr 0)")
  case True
  then obtain response where r: "tr 0 = Resolved response" "ok response"
    by (cases "tr 0") simp_all
  show ?thesis
    using True r
    by (simp add: fetchWithBackoff_loop after_def settle_def
        loop_return [where tr = tr and response = response and s = "\<lparr>retries = 1, delay = d, i = 0\<rparr>"])
next
  case False
  then have "\<forall>response. \<not> (tr 0 = Resolved response \<and> ok response)"
    by auto
  then show ?thesis
    using False
    by (auto simp add: fetchWithBackoff_loop after_def settle_def
        loop_rethrow [where tr = tr and s = "\<lparr>retries = 1, delay = d, i = 0\<rparr>"])
qed

theorem single_attempt_budget_witness:
  "\<not> success (always (Resolved rate_limited) 0) \<and>
   outcome (fetchWithBackoff DocBotPage (always (Resolved rate_limited))
      example_url post_json [Some 1, Some 1000]) = Thrown (Error ''API returned status 429'') \<and>
   trace (fetchWithBackoff DocBotPage (always (Resolved rate_limited))
      example_url post_json [Some 1, Some 1000]) = [Fetch example_url post_json] \<and>
   \<not> success (always (Rejected (TypeError ''Failed to fetch'')) 0) \<and>
   outcome (fetchWithBackoff PredictionPage (always (Rejected (TypeError ''Failed to fetch'')))
      example_url post_json [Some 1, Some 1000]) = Thrown (TypeError ''Failed to fetch'') \<and>
   trace (fetchWithBackoff PredictionPage (always (Rejected (TypeError ''Failed to fetch'')))
      example_url post_json [Some 1, Some 1000]) = [Fetch example_url post_json] \<and>
   always (Resolved answer) 0 = Resolved answer \<and> ok answer \<and>
   outcome (fetchWithBackoff DocBotPage (always (Resolved answer))
      example_url post_json [Some 1, Some 1000]) = Returned answer"
  using
    single_attempt_budget [where pg = DocBotPage and tr = "always (Resolved rate_limited)"
      and url = example_url and opts = post_json and d = 1000]
    single_attempt_budget [where pg = PredictionPage
      and tr = "always (Rejected (TypeError ''Failed to fetch''))"
      and url = example_url and opts = post_json and d = 1000]
    single_attempt_budget [where pg = DocBotPage and tr = "always (Resolved answer)"
      and url = example_url and opts = post_json and d = 1000]
  by (simp add: always_def rate_limited_def answer_def ok_def show_nat.simps digit_char_def)


text \<open>
  C7. The claim: every terminal error carries the count of attempts and the last
  failure reason. The thrown value is the last failure itself and nothing more: a
  run of one attempt and a run of two attempts throw the same value, so the count
  cannot be read off it.
\<close>

theorem error_without_attempt_count:
  "outcome (fetchWithBackoff DocBotPage (always (Rejected (TypeError ''Failed to fetch'')))
      example_url post_json [Some 1, Some 1000]) = Thrown (TypeError ''Failed to fetch'') \<and>
   attempts (trace (fetchWithBackoff DocBotPage (always (Rejected (TypeError ''Failed to fetch'')))
      example_url post_json [Some 1, Some 1000])) = 1 \<and>
   outcome (fetchWithBackoff DocBotPage (always (Rejected (TypeError ''Failed to fetch'')))
      example_url post_json [Some 2, Some 1000]) = Thrown (TypeError ''Failed to fetch'') \<and>
   attempts (trace (fetchWithBackoff DocBotPage (always (Rejected (TypeError ''Failed to fetch'')))
      example_url post_json [Some 2, Some 1000])) = 2"
proof -
  let ?tr = "always (Rejected (TypeError ''Failed to fetch''))"
  have one: "\<forall>j\<le>0. \<not> success (?tr j)" and two: "\<forall>j\<le>1. \<not> success (?tr j)"
    by (simp_all add: always_def)
  have last1: "i \<lparr>retries = 1, delay = 1000, i = 0\<rparr> + int 0 =
      retries \<lparr>retries = 1, delay = 1000, i = 0\<rparr> - 1"
    and last2: "i \<lparr>retries = 2, delay = 1000, i = 0\<rparr> + int 1 =
      retries \<lparr>retries = 2, delay = 1000, i = 0\<rparr> - 1"
    by simp_all
  have why: "reason (?tr k) = TypeError ''Failed to fetch''" for k
    by (simp add: always_def)
  show ?thesis
    by (simp add: fetchWithBackoff_loop why
        loop_exhausts [where tr = ?tr and k = 0, OF one last1]
        loop_exhausts [where tr = ?tr and k = 1, OF two last2])
qed

text \<open>
  C7, as the code has it. Every error the helper throws is the reason of the last
  attempt it made: the value \<^verbatim>\<open>fetch\<close> rejected with, or an \<open>Error\<close> whose
  message is \<^verbatim>\<open>API returned status\<close> followed by the status of the last response.
\<close>

theorem error_is_last_reason:
  assumes "outcome (fetchWithBackoff pg tr url opts args) = Thrown error"
  shows "1 \<le> attempts (trace (fetchWithBackoff pg tr url opts args)) \<and>
         error = reason (tr (attempts (trace (fetchWithBackoff pg tr url opts args)) - 1)) \<and>
         \<not> success (tr (attempts (trace (fetchWithBackoff pg tr url opts args)) - 1))"
  using assms loop_thrown [of tr url opts _ error]
  by (simp add: fetchWithBackoff_loop)

theorem error_is_last_reason_witness:
  "outcome (fetchWithBackoff PredictionPage (always (Resolved rate_limited))
      example_url post_json []) = Thrown (Error ''API returned status 429'') \<and>
   Error ''API returned status 429'' =
     reason (always (Resolved rate_limited)
       (attempts (trace (fetchWithBackoff PredictionPage (always (Resolved rate_limited))
          example_url post_json [])) - 1))"
proof -
  let ?tr = "always (Resolved rate_limited)"
  let ?s = "\<lparr>retries = 3, delay = 1000, i = 0\<rparr>"
  have fails: "\<forall>j\<le>2. \<not> success (?tr j)"
    by (simp add: always_def rate_limited_def ok_def)
  have last: "i ?s + int 2 = retries ?s - 1"
    by simp
  have msg: "reason (?tr 2) = Error ''API returned status 429''"
    by (simp add: always_def rate_limited_def show_nat.simps digit_char_def)
  have thrown: "outcome (fetchWithBackoff PredictionPage ?tr example_url post_json []) =
      Thrown (Error ''API returned status 429'')"
    by (simp add: fetchWithBackoff_loop msg
        loop_exhausts [where tr = ?tr and s = ?s and k = 2, OF fails last])
  from error_is_last_reason [OF thrown] thrown show ?thesis
    by simp
qed

text \<open>
  C8. The copy inside PredictionPage and the copy inside DocBotPage are the same
  function: for every transport, url, options and further arguments they end the
  same way, with the same variables, after the same attempts and waits.
\<close>

theorem copies_agree:
  "fetchWithBackoff_PredictionPage tr url opts args =
     fetchWithBackoff_DocBotPage tr url opts args"
  by (simp add: fetchWithBackoff_PredictionPage_def fetchWithBackoff_DocBotPage_def
      loop_PredictionPage_eq)

text \<open>
  C9. The claim: defaults 3, 1000 ms and 2, no mutation of the policy, and a
  multiplier the caller can set to any value above 1. The helper has the parameters
  \<^verbatim>\<open>retries\<close> and \<^verbatim>\<open>delay\<close> only. A caller who passes 3 as a further argument,
  meaning a multiplier of 3, still gets waits of 1000 and 2000, not 1000 and 3000.
\<close>

theorem multiplier_is_not_a_parameter:
  "waits (trace (fetchWithBackoff DocBotPage
      (script [Resolved rate_limited, Resolved rate_limited] (Resolved answer))
      example_url post_json [Some 3, Some 1000, Some 3])) = [1000, 2000] \<and>
   waits (trace (fetchWithBackoff DocBotPage
      (script [Resolved rate_limited, Resolved rate_limited] (Resolved answer))
      example_url post_json [Some 3, Some 1000, Some 3])) \<noteq> [1000 * 3 ^ 0, 1000 * 3 ^ 1]"
proof -
  let ?tr = "script [Resolved rate_limited, Resolved rate_limited] (Resolved answer)"
  let ?s = "\<lparr>retries = 3, delay = 1000, i = 0\<rparr>"
  have fails: "\<forall>j<2. \<not> success (?tr j)"
    by (simp add: script_def rate_limited_def ok_def less_Suc_eq numeral_2_eq_2)
  have third: "?tr 2 = Resolved answer"
    by (simp add: script_def)
  have good: "ok answer"
    by (simp add: answer_def ok_def)
  have room: "i ?s + int 2 < retries ?s"
    by simp
  have sched: "schedule example_url post_json 2 1000 =
      [Fetch example_url post_json, Wait 1000, Fetch example_url post_json, Wait 2000]"
    by (simp add: numeral_2_eq_2)
  show ?thesis
    by (simp add: fetchWithBackoff_loop sched
        loop_succeeds [where tr = ?tr and s = ?s and k = 2, OF fails third good room])
qed

text \<open>
  C9, as the code has it. A call without the further arguments, or with
  \<^verbatim>\<open>undefined\<close> for them, runs with 3 retries and a delay of 1000 ms. The run
  ends with \<^verbatim>\<open>retries\<close> as it was bound: it is never assigned. The multiplier
  is the constant 2 of the loop: whatever the arguments, the wait before retry \<open>j\<close>
  is the bound delay times \<open>2 ^ (j - 1)\<close>.
\<close>

theorem defaults_and_fixed_multiplier:
  "fetchWithBackoff pg tr url opts [] = fetchWithBackoff pg tr url opts [Some 3, Some 1000] \<and>
   fetchWithBackoff pg tr url opts [None, None] =
     fetchWithBackoff pg tr url opts [Some 3, Some 1000] \<and>
   retries (vars (fetchWithBackoff pg tr url opts args)) = param args 0 3 \<and>
   (\<forall>j. 1 \<le> j \<and> j \<le> length (waits (trace (fetchWithBackoff pg tr url opts args))) \<longrightarrow>
      waits (trace (fetchWithBackoff pg tr url opts args)) ! (j - 1) =
        param args 1 1000 * 2 ^ (j - 1))"
proof -
  let ?s = "\<lparr>retries = param args 0 3, delay = param args 1 1000, i = 0\<rparr>"
  have general: "waits (trace (loop_DocBotPage tr url opts ?s)) ! (j - 1) =
      param args 1 1000 * 2 ^ (j - 1)"
    if "1 \<le> j" and "j \<le> length (waits (trace (loop_DocBotPage tr url opts ?s)))" for j
    using loop_wait_nth [OF that] by simp
  show ?thesis
    using general by (simp add: fetchWithBackoff_loop loop_retries_kept)
qed

theorem defaults_and_fixed_multiplier_witness:
  "(1::nat) \<le> 2 \<and>
   2 \<le> length (waits (trace (fetchWithBackoff PredictionPage (always (Resolved rate_limited))
      example_url post_json [Some 3, Some 1000, Some 3]))) \<and>
   waits (trace (fetchWithBackoff PredictionPage (always (Resolved rate_limited))
      example_url post_json [Some 3, Some 1000, Some 3])) ! (2 - 1) = 1000 * 2 ^ (2 - 1) \<and>
   retries (vars (fetchWithBackoff PredictionPage (always (Resolved rate_limited))
      example_url post_json [Some 3, Some 1000, Some 3])) = 3 \<and>
   fetchWithBackoff PredictionPage (always (Resolved rate_limited)) example_url post_json [] =
     fetchWithBackoff PredictionPage (always (Resolved rate_limited)) example_url post_json
       [Some 3, Some 1000]"
proof -
  let ?tr = "always (Resolved rate_limited)"
  let ?s = "\<lparr>retries = 3, delay = 1000, i = 0\<rparr>"
  let ?args = "[Some 3, Some 1000, Some 3]"
  let ?ws = "waits (trace (fetchWithBackoff PredictionPage ?tr example_url post_json ?args))"
  have fails: "\<forall>j\<le>2. \<not> success (?tr j)"
    by (simp add: always_def rate_limited_def ok_def)
  have last: "i ?s + int 2 = retries ?s - 1"
    by simp
  have len: "length ?ws = 2"
    by (simp add: fetchWithBackoff_loop waits_schedule
        loop_exhausts [where tr = ?tr and s = ?s and k = 2, OF fails last])
  note all = defaults_and_fixed_multiplier [where pg = PredictionPage and tr = ?tr
      and url = example_url and opts = post_json and args = ?args]
  from all have "1 \<le> (2::nat) \<and> 2 \<le> length ?ws \<longrightarrow> ?ws ! (2 - 1) = param ?args 1 1000 * 2 ^ (2 - 1)"
    by blast
  with len have second: "?ws ! (2 - 1) = 1000 * 2 ^ (2 - 1)"
    by simp
  from all have kept: "retries (vars (fetchWithBackoff PredictionPage ?tr example_url post_json ?args)) = 3"
    by simp
  from all have dflt: "fetchWithBackoff PredictionPage ?tr example_url post_json [] =
      fetchWithBackoff PredictionPage ?tr example_url post_json [Some 3, Some 1000]"
    by blast
  show ?thesis
    using len second kept dflt by simp
qed

text \<open>
  C10. For every number of retries \<open>n \<le> 0\<close> the loop body never runs: no call of
  \<^verbatim>\<open>fetch\<close>, no wait, and the function falls off its end, so the caller gets
  \<^verbatim>\<open>undefined\<close>: neither a response nor an error.
\<close>

theorem nonpositive_budget:
  assumes "n \<le> 0"
  shows "fetchWithBackoff pg tr url opts [Some n, Some d] =
     \<lparr>outcome = Undefined, vars = \<lparr>retries = n, delay = d, i = 0\<rparr>, trace = []\<rparr>"
  using assms
  by (simp add: fetchWithBackoff_loop settle_def
      loop_skip [where s = "\<lparr>retries = n, delay = d, i = 0\<rparr>"])

theorem nonpositive_budget_witness:
  "(0::int) \<le> 0 \<and> (- 2::int) \<le> 0 \<and>
   outcome (fetchWithBackoff DocBotPage (always (Resolved answer)) example_url post_json
      [Some 0, Some 1000]) = Undefined \<and>
   trace (fetchWithBackoff DocBotPage (always (Resolved answer)) example_url post_json
      [Some 0, Some 1000]) = [] \<and>
   outcome (fetchWithBackoff PredictionPage (always (Resolved answer)) example_url post_json
      [Some (- 2), Some 1000]) = Undefined \<and>
   trace (fetchWithBackoff PredictionPage (always (Resolved answer)) example_url post_json
      [Some (- 2), Some 1000]) = []"
  using
    nonpositive_budget [where n = 0 and pg = DocBotPage and tr = "always (Resolved answer)"
      and url = example_url and opts = post_json and d = 1000]
    nonpositive_budget [where n = "- 2" and pg = PredictionPage and tr = "always (Resolved answer)"
      and url = example_url and opts = post_json and d = 1000]
  by simp

end
